theory Spec2Isabelle
  imports Main "HOL-Library.Sublist"
begin

section \<open>Salesforce SOAP login: a model of \<^verbatim>\<open>src/main.py\<close>\<close>

text \<open>
  The script builds a SOAP login envelope, posts it, and reads \<^verbatim>\<open>sessionId\<close> and
  \<^verbatim>\<open>serverUrl\<close> out of the XML answer. Two libraries stand between the script and the
  world: \<^verbatim>\<open>requests\<close> (the HTTP transport) and \<^verbatim>\<open>xml.etree.ElementTree\<close> (the XML
  parser). Neither is code of the script, so both enter the model as parameters: the
  transport is a function from the requests sent so far and the current request to an
  outcome, and \<^verbatim>\<open>ET.fromstring\<close> is a function from the text to a parsed tree or an
  exception. Python strings are modelled as \<^typ>\<open>string\<close>; \<^verbatim>\<open>None\<close> is \<^term>\<open>None\<close>.
  Console output (\<^verbatim>\<open>print\<close>) is not part of the model, except where building the printed
  text can raise: the slice of line 89 and the formatting of a caught exception.
\<close>

subsection \<open>Exceptions\<close>

text \<open>
  What \<^verbatim>\<open>requests.post\<close>, \<^verbatim>\<open>ET.fromstring\<close> and the script's own expressions can raise.
  \<open>KeyboardInterrupt\<close> and \<open>SystemExit\<close> derive from \<^verbatim>\<open>BaseException\<close> and are not
  instances of \<^verbatim>\<open>Exception\<close>; every other value is one. \<open>StrRaises e\<close> is an instance of
  \<^verbatim>\<open>Exception\<close> whose \<^verbatim>\<open>__str__\<close> raises \<open>e\<close>. The exceptions of the \<^verbatim>\<open>requests\<close> library
  (\<open>Timeout\<close>, \<open>ConnectionError\<close>) are instances of \<^verbatim>\<open>Exception\<close> with a message.
\<close>

datatype py_exn =
    ParseError
  | TypeError
  | ValueError
  | IndexError
  | SyntaxError
  | UnicodeEncodeError
  | Timeout
  | ConnectionError
  | OtherException string
  | StrRaises py_exn
  | KeyboardInterrupt
  | SystemExit

text \<open>The two handler clauses of the script: \<^verbatim>\<open>except Exception\<close> and
  \<^verbatim>\<open>except ET.ParseError\<close>.\<close>

definition isinstance_Exception :: "py_exn \<Rightarrow> bool" where
  "isinstance_Exception e = (e \<noteq> KeyboardInterrupt \<and> e \<noteq> SystemExit)"

definition isinstance_ParseError :: "py_exn \<Rightarrow> bool" where
  "isinstance_ParseError e = (e = ParseError)"

text \<open>What formatting an exception into an f-string (\<^verbatim>\<open>f"{e}"\<close>, that is \<^verbatim>\<open>str(e)\<close>) raises,
  if anything.\<close>

definition str_raises :: "py_exn \<Rightarrow> py_exn option" where
  "str_raises e = (case e of StrRaises e' \<Rightarrow> Some e' | _ \<Rightarrow> None)"

text \<open>The handlers of lines 56 to 58 and of lines 97 to 99: print a line that holds
  \<^verbatim>\<open>{e}\<close>, then return \<^verbatim>\<open>(None, None)\<close>. The print stands outside every \<^verbatim>\<open>try\<close>: what
  it raises leaves the function.\<close>

definition print_and_fail :: "py_exn \<Rightarrow> py_exn + string option \<times> string option" where
  "print_and_fail e = (case str_raises e of Some e' \<Rightarrow> Inl e' | None \<Rightarrow> Inr (None, None))"

text \<open>\<^verbatim>\<open>try: body except C as e: handler\<close>: an exception of the body that the clause
  does not match goes on to the caller.\<close>

definition try_except ::
  "(py_exn \<Rightarrow> bool) \<Rightarrow> (py_exn + 'a) \<Rightarrow> (py_exn \<Rightarrow> py_exn + 'a) \<Rightarrow> py_exn + 'a" where
  "try_except matches body handler =
     (case body of
        Inl e \<Rightarrow> (if matches e then handler e else Inl e)
      | Inr v \<Rightarrow> Inr v)"

subsection \<open>Element trees\<close>

text \<open>
  An \<^verbatim>\<open>Element\<close> of ElementTree: its tag (in the form \<^verbatim>\<open>{uri}local\<close> when the element
  is in a namespace), its attributes, the text before its first child (\<^verbatim>\<open>None\<close> when
  there is none), the text after its end tag, and its children in document order.
\<close>

datatype element =
  Element (tag: string) (attrib: "(string \<times> string) list")
    (elem_text: "string option") (tail: "string option") (children: "element list")

text \<open>\<^verbatim>\<open>Element.iter()\<close>: the element itself, then its subtree, in document order.\<close>

fun iter :: "element \<Rightarrow> element list" where
  "iter (Element t a x y cs) = Element t a x y cs # concat (map iter cs)"

text \<open>The elements strictly below an element, in document order: what the descendant
  axis \<^verbatim>\<open>.//\<close> of an ElementPath ranges over (it skips the context element itself).\<close>

definition descendants :: "element \<Rightarrow> element list" where
  "descendants root = concat (map iter (children root))"


text \<open>A prefixed name \<^verbatim>\<open>prefix:local\<close> of a path is resolved through the namespace
  dictionary to \<^verbatim>\<open>{uri}local\<close>; an undeclared prefix is a \<^verbatim>\<open>SyntaxError\<close>.\<close>

definition resolve_tag :: "(string \<times> string) list \<Rightarrow> string \<Rightarrow> string \<Rightarrow> py_exn + string" where
  "resolve_tag namespaces pfx local =
     (case map_of namespaces pfx of
        None \<Rightarrow> Inl SyntaxError
      | Some uri \<Rightarrow> Inr (''{'' @ uri @ ''}'' @ local))"

text \<open>\<^verbatim>\<open>root.find('.//prefix:local', namespaces)\<close>: the first element below the root, in
  document order, whose tag is the resolved name, or \<^verbatim>\<open>None\<close>. The path is given by its
  prefix and local name.\<close>

definition Element_find ::
  "element \<Rightarrow> string \<Rightarrow> string \<Rightarrow> (string \<times> string) list \<Rightarrow> py_exn + element option" where
  "Element_find root pfx local namespaces =
     (case resolve_tag namespaces pfx local of
        Inl e \<Rightarrow> Inl e
      | Inr t \<Rightarrow> Inr (List.find (\<lambda>e. tag e = t) (descendants root)))"

subsection \<open>\<^verbatim>\<open>parse_login_response\<close>\<close>

type_synonym xml_parser = "string \<Rightarrow> py_exn + element"

type_synonym login_result = "string option \<times> string option"

definition namespaces :: "(string \<times> string) list" where
  "namespaces =
     [(''soapenv'', ''http://schemas.xmlsoap.org/soap/envelope/''),
      (''ns'', ''urn:partner.soap.sforce.com'')]"

text \<open>\<^verbatim>\<open>x[:n]\<close> on an optional string: slicing \<^verbatim>\<open>None\<close> raises \<^verbatim>\<open>TypeError\<close>.\<close>

definition slice_to :: "string option \<Rightarrow> nat \<Rightarrow> py_exn + string" where
  "slice_to x n = (case x of None \<Rightarrow> Inl TypeError | Some s \<Rightarrow> Inr (take n s))"

text \<open>
  The body of the \<^verbatim>\<open>try\<close> block, lines 72 to 95. The only statement between the test of
  line 84 and the \<^verbatim>\<open>return\<close> of line 92 that can raise is the slice
  \<^verbatim>\<open>session_id[:20]\<close> of line 89.
\<close>

definition parse_login_body :: "xml_parser \<Rightarrow> string \<Rightarrow> py_exn + login_result" where
  "parse_login_body fromstring response_xml =
     (case fromstring response_xml of
        Inl e \<Rightarrow> Inl e
      | Inr root \<Rightarrow>
          (case Element_find root ''ns'' ''sessionId'' namespaces of
             Inl e \<Rightarrow> Inl e
           | Inr session_id_element \<Rightarrow>
               (case Element_find root ''ns'' ''serverUrl'' namespaces of
                  Inl e \<Rightarrow> Inl e
                | Inr server_url_element \<Rightarrow>
                    (if session_id_element \<noteq> None \<and> server_url_element \<noteq> None then
                       (let session_id = elem_text (the session_id_element);
                            server_url = elem_text (the server_url_element)
                        in case slice_to session_id 20 of
                             Inl e \<Rightarrow> Inl e
                           | Inr shown \<Rightarrow> Inr (session_id, server_url))
                     else Inr (None, None)))))"

definition parse_login_response :: "xml_parser \<Rightarrow> string \<Rightarrow> py_exn + login_result" where
  "parse_login_response fromstring response_xml =
     try_except isinstance_ParseError
       (parse_login_body fromstring response_xml)
       print_and_fail"

subsection \<open>\<^verbatim>\<open>get_salesforce_session_id\<close>\<close>

datatype http_method = GET | POST

record request =
  http_method :: http_method
  url :: string
  data :: "string option"
  headers :: "(string \<times> string) list"
  timeout :: "nat option"

record response =
  status_code :: int
  resp_text :: string

text \<open>The transport: given the requests sent so far and the request at hand, it answers
  or raises (a timeout and a network failure are exceptions of \<^verbatim>\<open>requests\<close>; an
  interrupt of the user during the call is a \<open>KeyboardInterrupt\<close>).\<close>

type_synonym transport = "request list \<Rightarrow> request \<Rightarrow> py_exn + response"

text \<open>The f-string of lines 26 to 35: the arguments are put into the text as they are.\<close>

definition soap_body :: "string \<Rightarrow> string \<Rightarrow> string \<Rightarrow> string" where
  \<open>soap_body username password security_token =
     ''<?xml version="1.0" encoding="utf-8"?>\<newline>'' @
     ''<soapenv:Envelope xmlns:soapenv="http://schemas.xmlsoap.org/soap/envelope/" xmlns:urn="urn:partner.soap.sforce.com">\<newline>'' @
     ''    <soapenv:Header/>\<newline>'' @
     ''    <soapenv:Body>\<newline>'' @
     ''        <urn:login>\<newline>'' @
     ''            <urn:username>'' @ username @ ''</urn:username>\<newline>'' @
     ''            <urn:password>'' @ password @ security_token @ ''</urn:password>\<newline>'' @
     ''        </urn:login>\<newline>'' @
     ''    </soapenv:Body>\<newline>'' @
     ''</soapenv:Envelope>''\<close>

text \<open>The request of line 45, from the values of lines 20 to 41.\<close>

definition login_request :: "string \<Rightarrow> string \<Rightarrow> string \<Rightarrow> bool \<Rightarrow> request" where
  "login_request username password security_token is_sandbox =
     (let login_url =
            (if is_sandbox then ''https://mysandbox.my.salesforce.com/services/Soap/u/60.0''
             else ''https://login.salesforce.com/services/Soap/u/60.0'');
          headers = [(''Content-Type'', ''text/xml; charset=UTF-8''), (''SOAPAction'', ''login'')]
      in \<lparr>http_method = POST, url = login_url,
          data = Some (soap_body username password security_token),
          headers = headers, timeout = Some 30\<rparr>)"

text \<open>The function returns its result and the requests sent, the one of this call added
  at the end.\<close>

definition get_salesforce_session_id ::
  "transport \<Rightarrow> xml_parser \<Rightarrow> string \<Rightarrow> string \<Rightarrow> string \<Rightarrow> bool \<Rightarrow> request list
     \<Rightarrow> (py_exn + login_result) \<times> request list" where
  "get_salesforce_session_id post fromstring username password security_token is_sandbox sent =
     (let req = login_request username password security_token is_sandbox
      in (try_except isinstance_Exception
            (case post sent req of
               Inl e \<Rightarrow> Inl e
             | Inr response \<Rightarrow>
                 (if status_code response = 200
                  then parse_login_response fromstring (resp_text response)
                  else Inr (None, None)))
            print_and_fail,
          sent @ [req]))"

subsection \<open>\<^verbatim>\<open>test_rest_api_with_session\<close>\<close>

text \<open>\<^verbatim>\<open>s.split(sep)\<close> for a separator text: the pieces between the occurrences of the
  separator, found from the left without overlap. An empty separator is a
  \<^verbatim>\<open>ValueError\<close>.\<close>

function str_split_from :: "string \<Rightarrow> string \<Rightarrow> string \<Rightarrow> string list" where
  "str_split_from sep cur [] = [cur]"
| "str_split_from sep cur (c # cs) =
     (if sep \<noteq> [] \<and> prefix sep (c # cs)
      then cur # str_split_from sep [] (drop (length sep) (c # cs))
      else str_split_from sep (cur @ [c]) cs)"
  by pat_completeness auto
termination
  by (relation "measure (\<lambda>(sep, cur, s). length s)") auto

definition str_split :: "string \<Rightarrow> string \<Rightarrow> py_exn + string list" where
  "str_split s sep = (if sep = [] then Inl ValueError else Inr (str_split_from sep [] s))"

definition subscript0 :: "'a list \<Rightarrow> py_exn + 'a" where
  "subscript0 xs = (case xs of [] \<Rightarrow> Inl IndexError | x # _ \<Rightarrow> Inr x)"

text \<open>Lines 118 and 119: the REST base URL.\<close>

definition rest_base_url :: "string \<Rightarrow> py_exn + string" where
  "rest_base_url server_url =
     (case str_split server_url ''/services/'' of
        Inl e \<Rightarrow> Inl e
      | Inr parts \<Rightarrow>
          (case subscript0 parts of
             Inl e \<Rightarrow> Inl e
           | Inr base_url \<Rightarrow> Inr (base_url @ ''/services/data/v60.0'')))"

text \<open>Truth value of an optional string: \<^verbatim>\<open>None\<close> and the empty string are false.\<close>

definition truthy :: "string option \<Rightarrow> bool" where
  "truthy x = (case x of None \<Rightarrow> False | Some s \<Rightarrow> s \<noteq> [])"

text \<open>The probe sends at most one GET. The model returns the requests sent: what the
  GET answers or raises decides only what is printed afterwards.\<close>

definition test_rest_api_with_session ::
  "transport \<Rightarrow> string option \<Rightarrow> string option \<Rightarrow> request list \<Rightarrow> request list" where
  "test_rest_api_with_session get_http session_id server_url sent =
     (if \<not> truthy session_id \<or> \<not> truthy server_url then sent
      else
        (case rest_base_url (the server_url) of
           Inl e \<Rightarrow> sent
         | Inr rest_base \<Rightarrow>
             sent @ [\<lparr>http_method = GET, url = rest_base @ ''/'', data = None,
                      headers = [(''Authorization'', ''Bearer '' @ the session_id),
                                 (''Content-Type'', ''application/json'')],
                      timeout = None\<rparr>]))"

subsection \<open>Sample documents\<close>

text \<open>
  The texts and trees below are the inputs at which the theorems of the next section are
  instantiated. Each tree is what \<^verbatim>\<open>ET.fromstring\<close> builds from the text given with it.
\<close>

text \<open>Names of the Partner and of the SOAP envelope namespace, in the form the parser
  gives to tags.\<close>

definition partner :: "string \<Rightarrow> string" where
  "partner local = ''{urn:partner.soap.sforce.com}'' @ local"

definition soapenv :: "string \<Rightarrow> string" where
  "soapenv local = ''{http://schemas.xmlsoap.org/soap/envelope/}'' @ local"

text \<open>A login answer: both elements four levels below the root.\<close>

definition xml_login_ok :: string where
  \<open>xml_login_ok =
     ''<soapenv:Envelope xmlns:soapenv="http://schemas.xmlsoap.org/soap/envelope/" xmlns="urn:partner.soap.sforce.com">'' @
     ''<soapenv:Body><loginResponse><result>'' @
     ''<serverUrl>https://x.my.salesforce.com/services/Soap/u/60.0/00D</serverUrl>'' @
     ''<sessionId>ABC123</sessionId>'' @
     ''</result></loginResponse></soapenv:Body></soapenv:Envelope>''\<close>

definition doc_login_ok :: element where
  "doc_login_ok =
     Element (soapenv ''Envelope'') [] None None
       [Element (soapenv ''Body'') [] None None
         [Element (partner ''loginResponse'') [] None None
           [Element (partner ''result'') [] None None
             [Element (partner ''serverUrl'') []
                (Some ''https://x.my.salesforce.com/services/Soap/u/60.0/00D'') None [],
              Element (partner ''sessionId'') [] (Some ''ABC123'') None []]]]]"

text \<open>A document whose root is the \<^verbatim>\<open>sessionId\<close> element.\<close>

definition xml_root_session :: string where
  \<open>xml_root_session =
     ''<sessionId xmlns="urn:partner.soap.sforce.com">S<serverUrl>U</serverUrl></sessionId>''\<close>

definition doc_root_session :: element where
  "doc_root_session =
     Element (partner ''sessionId'') [] (Some ''S'') None
       [Element (partner ''serverUrl'') [] (Some ''U'') None []]"

text \<open>A document with an empty \<^verbatim>\<open>serverUrl\<close> element.\<close>

definition xml_empty_url :: string where
  \<open>xml_empty_url =
     ''<r xmlns="urn:partner.soap.sforce.com"><sessionId>S</sessionId><serverUrl/></r>''\<close>

definition doc_empty_url :: element where
  "doc_empty_url =
     Element (partner ''r'') [] None None
       [Element (partner ''sessionId'') [] (Some ''S'') None [],
        Element (partner ''serverUrl'') [] None None []]"

text \<open>A document with an empty \<^verbatim>\<open>sessionId\<close> element.\<close>

definition xml_empty_session :: string where
  \<open>xml_empty_session =
     ''<r xmlns="urn:partner.soap.sforce.com"><sessionId/><serverUrl>U</serverUrl></r>''\<close>

definition doc_empty_session :: element where
  "doc_empty_session =
     Element (partner ''r'') [] None None
       [Element (partner ''sessionId'') [] None None [],
        Element (partner ''serverUrl'') [] (Some ''U'') None []]"

text \<open>A document without a \<^verbatim>\<open>sessionId\<close> element.\<close>

definition xml_no_session :: string where
  \<open>xml_no_session =
     ''<r xmlns="urn:partner.soap.sforce.com"><serverUrl>U</serverUrl></r>''\<close>

definition doc_no_session :: element where
  "doc_no_session =
     Element (partner ''r'') [] None None
       [Element (partner ''serverUrl'') [] (Some ''U'') None []]"

text \<open>A text that is not well-formed: the tag \<^verbatim>\<open>b\<close> is never closed.\<close>

definition xml_unclosed :: string where
  "xml_unclosed = ''<a><b></a>''"

text \<open>A text with the code point U+D800, a surrogate without its pair, between the tags;
  it is written here as the three bytes \<^verbatim>\<open>ED A0 80\<close>. No such character is allowed in
  XML, and \<^verbatim>\<open>ET.fromstring\<close> raises \<^verbatim>\<open>UnicodeEncodeError\<close> on the text.\<close>

definition xml_lone_surrogate :: string where
  "xml_lone_surrogate = ''<a>'' @ [CHR 0xED, CHR 0xA0, CHR 0x80] @ ''</a>''"

text \<open>\<^verbatim>\<open>ET.fromstring\<close> on the sample texts. No theorem looks at another text; the table
  answers \<^verbatim>\<open>ParseError\<close> there.\<close>

definition sample_fromstring :: xml_parser where
  "sample_fromstring s =
     (if s = xml_login_ok then Inr doc_login_ok
      else if s = xml_root_session then Inr doc_root_session
      else if s = xml_empty_url then Inr doc_empty_url
      else if s = xml_empty_session then Inr doc_empty_session
      else if s = xml_no_session then Inr doc_no_session
      else if s = xml_lone_surrogate then Inl UnicodeEncodeError
      else Inl ParseError)"

text \<open>Transports: one that answers every request with status 500, one that times out,
  one that is interrupted by the user, one that raises an exception whose \<^verbatim>\<open>__str__\<close>
  raises \<^verbatim>\<open>ValueError\<close>, and one that answers with status 200 and the document with the
  empty \<^verbatim>\<open>sessionId\<close>.\<close>

definition post_status_500 :: transport where
  "post_status_500 sent req = Inr \<lparr>status_code = 500, resp_text = ''Internal Server Error''\<rparr>"

definition post_timeout :: transport where
  "post_timeout sent req = Inl Timeout"

definition post_interrupted :: transport where
  "post_interrupted sent req = Inl KeyboardInterrupt"

definition post_str_raises :: transport where
  "post_str_raises sent req = Inl (StrRaises ValueError)"

definition post_empty_session :: transport where
  "post_empty_session sent req = Inr \<lparr>status_code = 200, resp_text = xml_empty_session\<rparr>"

section \<open>Properties\<close>

subsection \<open>Helper facts\<close>

lemma find_ns:
  "Element_find root ''ns'' local namespaces =
     Inr (List.find (\<lambda>e. tag e = ''{urn:partner.soap.sforce.com}'' @ local) (descendants root))"
  by (simp add: Element_find_def resolve_tag_def namespaces_def)

text \<open>Which exceptions the handler of line 56 turns into \<^verbatim>\<open>(None, None)\<close>: all but the two
  that are no instance of \<^verbatim>\<open>Exception\<close> and those that cannot be formatted. The exceptions
  of the transport are among them.\<close>

lemma handled_exceptions:
  "(isinstance_Exception e \<and> str_raises e = None) \<longleftrightarrow>
     e \<noteq> KeyboardInterrupt \<and> e \<noteq> SystemExit \<and> (\<forall>e'. e \<noteq> StrRaises e')"
  by (cases e) (simp_all add: isinstance_Exception_def str_raises_def)

lemma transport_exceptions_handled:
  "isinstance_Exception Timeout \<and> str_raises Timeout = None"
  "isinstance_Exception ConnectionError \<and> str_raises ConnectionError = None"
  "isinstance_Exception (OtherException s) \<and> str_raises (OtherException s) = None"
  by (simp_all add: isinstance_Exception_def str_raises_def)

lemma find_first:
  "xs = pre @ e # post \<Longrightarrow> \<forall>x\<in>set pre. \<not> P x \<Longrightarrow> P e \<Longrightarrow> List.find P xs = Some e"
  by (induction pre arbitrary: xs) auto


text \<open>The elements below the root are closed under taking children: the descendant axis
  reaches every depth.\<close>

lemma iter_self: "e \<in> set (iter e)"
  by (cases e) simp

lemma iter_children: "c \<in> set (children e) \<Longrightarrow> set (iter c) \<subseteq> set (iter e)"
  by (cases e) auto

lemma iter_trans: "c \<in> set (iter e) \<Longrightarrow> set (iter c) \<subseteq> set (iter e)"
proof (induction e arbitrary: c rule: iter.induct)
  case (1 t a x y cs)
  show ?case
  proof (cases "c = Element t a x y cs")
    case True
    then show ?thesis by simp
  next
    case False
    with "1.prems" obtain d where d: "d \<in> set cs" "c \<in> set (iter d)"
      by auto
    then have "set (iter c) \<subseteq> set (iter d)"
      using "1.IH" by blast
    with d(1) show ?thesis by auto
  qed
qed

lemma descendants_children:
  assumes "c \<in> set (descendants root)" and "e \<in> set (children c)"
  shows "e \<in> set (descendants root)"
proof -
  from assms(1) obtain d where d: "d \<in> set (children root)" "c \<in> set (iter d)"
    by (auto simp: descendants_def)
  have "e \<in> set (iter c)"
    using assms(2) iter_children [of e c] iter_self [of e] by blast
  then have "e \<in> set (iter d)"
    using iter_trans [OF d(2)] by blast
  with d(1) show ?thesis
    by (auto simp: descendants_def)
qed




lemma sample_values:
  "sample_fromstring xml_login_ok = Inr doc_login_ok"
  "sample_fromstring xml_root_session = Inr doc_root_session"
  "sample_fromstring xml_empty_url = Inr doc_empty_url"
  "sample_fromstring xml_empty_session = Inr doc_empty_session"
  "sample_fromstring xml_no_session = Inr doc_no_session"
  "sample_fromstring xml_lone_surrogate = Inl UnicodeEncodeError"
  by (simp_all add: sample_fromstring_def xml_unclosed_def xml_login_ok_def xml_root_session_def
        xml_empty_url_def xml_empty_session_def xml_no_session_def xml_lone_surrogate_def)

lemma descendants_login_ok:
  "descendants doc_login_ok =
     [Element (soapenv ''Body'') [] None None
         [Element (partner ''loginResponse'') [] None None
           [Element (partner ''result'') [] None None
             [Element (partner ''serverUrl'') []
                (Some ''https://x.my.salesforce.com/services/Soap/u/60.0/00D'') None [],
              Element (partner ''sessionId'') [] (Some ''ABC123'') None []]]],
      Element (partner ''loginResponse'') [] None None
           [Element (partner ''result'') [] None None
             [Element (partner ''serverUrl'') []
                (Some ''https://x.my.salesforce.com/services/Soap/u/60.0/00D'') None [],
              Element (partner ''sessionId'') [] (Some ''ABC123'') None []]],
      Element (partner ''result'') [] None None
             [Element (partner ''serverUrl'') []
                (Some ''https://x.my.salesforce.com/services/Soap/u/60.0/00D'') None [],
              Element (partner ''sessionId'') [] (Some ''ABC123'') None []],
      Element (partner ''serverUrl'') []
                (Some ''https://x.my.salesforce.com/services/Soap/u/60.0/00D'') None [],
      Element (partner ''sessionId'') [] (Some ''ABC123'') None []]"
  by (simp add: descendants_def doc_login_ok_def)

text \<open>What \<open>parse_login_response\<close> returns once the tree is there, by the outcome of the
  two lookups.\<close>

lemma parse_found:
  assumes "fromstring xml = Inr root"
    and "List.find (\<lambda>e. tag e = ''{urn:partner.soap.sforce.com}sessionId'') (descendants root) = Some se"
    and "List.find (\<lambda>e. tag e = ''{urn:partner.soap.sforce.com}serverUrl'') (descendants root) = Some ue"
  shows "parse_login_response fromstring xml =
     (case elem_text se of None \<Rightarrow> Inl TypeError | Some s \<Rightarrow> Inr (Some s, elem_text ue))"
  using assms
  by (simp add: parse_login_response_def parse_login_body_def find_ns try_except_def
      isinstance_ParseError_def slice_to_def split: option.splits)

lemma parse_not_found:
  assumes "fromstring xml = Inr root"
    and "List.find (\<lambda>e. tag e = ''{urn:partner.soap.sforce.com}sessionId'') (descendants root) = None
       \<or> List.find (\<lambda>e. tag e = ''{urn:partner.soap.sforce.com}serverUrl'') (descendants root) = None"
  shows "parse_login_response fromstring xml = Inr (None, None)"
  using assms
  by (auto simp add: parse_login_response_def parse_login_body_def find_ns try_except_def
      isinstance_ParseError_def slice_to_def split: option.splits)

lemma All_less_Suc_split: "(\<forall>i<Suc n. P i) \<longleftrightarrow> P 0 \<and> (\<forall>i<n. P (Suc i))"
  by (metis less_Suc_eq_0_disj)

text \<open>\<open>str_split_from\<close> cuts at the first occurrence of the separator.\<close>

lemma str_split_from_first:
  assumes "sep \<noteq> []"
    and "\<forall>i<length p. \<not> prefix sep (drop i (p @ sep @ r))"
  shows "str_split_from sep cur (p @ sep @ r) = (cur @ p) # str_split_from sep [] r"
  using assms(2)
proof (induction p arbitrary: cur)
  case Nil
  obtain c cs where sep: "sep = c # cs"
    using assms(1) by (cases sep) auto
  have "str_split_from sep cur (c # cs @ r) = cur # str_split_from sep [] (drop (length sep) (c # cs @ r))"
    by (simp add: sep)
  then show ?case
    by (simp add: sep)
next
  case (Cons a p)
  have no0: "\<not> prefix sep (a # p @ sep @ r)"
    using Cons.prems by auto
  have rest: "\<forall>i<length p. \<not> prefix sep (drop i (p @ sep @ r))"
    using Cons.prems by (auto simp: All_less_Suc_split)
  have "str_split_from sep cur ((a # p) @ sep @ r) = str_split_from sep (cur @ [a]) (p @ sep @ r)"
    using no0 by simp
  also have "\<dots> = ((cur @ [a]) @ p) # str_split_from sep [] r"
    using Cons.IH [OF rest] .
  finally show ?case by simp
qed

lemma str_split_from_none:
  assumes "\<forall>i<length s. \<not> prefix sep (drop i s)"
  shows "str_split_from sep cur s = [cur @ s]"
  using assms
proof (induction s arbitrary: cur)
  case Nil
  then show ?case by simp
next
  case (Cons a s)
  have no0: "\<not> prefix sep (a # s)"
    using Cons.prems by auto
  have rest: "\<forall>i<length s. \<not> prefix sep (drop i s)"
    using Cons.prems by (auto simp: All_less_Suc_split)
  show ?case
    using no0 Cons.IH [OF rest, of "cur @ [a]"] by simp
qed

subsection \<open>The claims\<close>

text \<open>
  C1. A well-formed answer in which the first Partner-namespace \<^verbatim>\<open>sessionId\<close> element
  below the root, in document order, has the text \<open>S\<close>, and the first Partner-namespace
  \<^verbatim>\<open>serverUrl\<close> element below the root has the text \<open>U\<close>, gives exactly \<open>(S, U)\<close>: both
  texts as they are, not trimmed, the URL not inspected.
\<close>

theorem parse_login_response_first_match:
  assumes "fromstring response_xml = Inr root"
    and "descendants root = pre @ se # post"
    and "\<forall>e\<in>set pre. tag e \<noteq> partner ''sessionId''"
    and "tag se = partner ''sessionId''" and "elem_text se = Some S"
    and "descendants root = pre' @ ue # post'"
    and "\<forall>e\<in>set pre'. tag e \<noteq> partner ''serverUrl''"
    and "tag ue = partner ''serverUrl''" and "elem_text ue = Some U"
  shows "parse_login_response fromstring response_xml = Inr (Some S, Some U)"
proof -
  have s: "List.find (\<lambda>e. tag e = ''{urn:partner.soap.sforce.com}sessionId'') (descendants root) = Some se"
    using assms(2,3,4) by (intro find_first[where pre=pre and post=post]) (simp_all add: partner_def)
  have u: "List.find (\<lambda>e. tag e = ''{urn:partner.soap.sforce.com}serverUrl'') (descendants root) = Some ue"
    using assms(6,7,8) by (intro find_first[where pre=pre' and post=post']) (simp_all add: partner_def)
  show ?thesis
    using parse_found[of fromstring response_xml root se ue] assms(1,5,9) s u by simp
qed

theorem parse_login_response_first_match_witness:
  "sample_fromstring xml_login_ok = Inr doc_login_ok \<and>
   parse_login_response sample_fromstring xml_login_ok =
     Inr (Some ''ABC123'', Some ''https://x.my.salesforce.com/services/Soap/u/60.0/00D'')"
proof -
  let ?ds = "descendants doc_login_ok"
  have p: "sample_fromstring xml_login_ok = Inr doc_login_ok"
    by (rule sample_values)
  have s1: "?ds = take 4 ?ds @ (?ds ! 4) # drop 5 ?ds"
    by (simp add: descendants_login_ok)
  have s2: "\<forall>e\<in>set (take 4 ?ds). tag e \<noteq> partner ''sessionId''"
    by (simp add: descendants_login_ok partner_def soapenv_def)
  have s3: "tag (?ds ! 4) = partner ''sessionId''"
    by (simp add: descendants_login_ok)
  have s4: "elem_text (?ds ! 4) = Some ''ABC123''"
    by (simp add: descendants_login_ok)
  have u1: "?ds = take 3 ?ds @ (?ds ! 3) # drop 4 ?ds"
    by (simp add: descendants_login_ok)
  have u2: "\<forall>e\<in>set (take 3 ?ds). tag e \<noteq> partner ''serverUrl''"
    by (simp add: descendants_login_ok partner_def soapenv_def)
  have u3: "tag (?ds ! 3) = partner ''serverUrl''"
    by (simp add: descendants_login_ok)
  have u4: "elem_text (?ds ! 3) = Some ''https://x.my.salesforce.com/services/Soap/u/60.0/00D''"
    by (simp add: descendants_login_ok)
  show ?thesis
    using p parse_login_response_first_match
      [of sample_fromstring xml_login_ok doc_login_ok "take 4 ?ds" "?ds ! 4" "drop 5 ?ds"
          "''ABC123''" "take 3 ?ds" "?ds ! 3" "drop 4 ?ds"
          "''https://x.my.salesforce.com/services/Soap/u/60.0/00D''", OF p s1 s2 s3 s4 u1 u2 u3 u4]
    by simp
qed

text \<open>
  The lookup does not see the root element itself. In the document below, the root is the
  only \<^verbatim>\<open>sessionId\<close> element, with text \<^verbatim>\<open>S\<close>, and there is a \<^verbatim>\<open>serverUrl\<close> element with
  text \<^verbatim>\<open>U\<close>; the result is \<^verbatim>\<open>(None, None)\<close>, not \<^verbatim>\<open>(S, U)\<close>.
\<close>

theorem parse_login_response_root_session_counterexample:
  "sample_fromstring xml_root_session = Inr doc_root_session \<and>
   doc_root_session \<in> set (iter doc_root_session) \<and>
   tag doc_root_session = partner ''sessionId'' \<and>
   elem_text doc_root_session = Some ''S'' \<and>
   Element (partner ''serverUrl'') [] (Some ''U'') None [] \<in> set (iter doc_root_session) \<and>
   parse_login_response sample_fromstring xml_root_session = Inr (None, None) \<and>
   parse_login_response sample_fromstring xml_root_session \<noteq> Inr (Some ''S'', Some ''U'')"
proof -
  have p: "sample_fromstring xml_root_session = Inr doc_root_session"
    by (rule sample_values)
  have f: "List.find (\<lambda>e. tag e = ''{urn:partner.soap.sforce.com}sessionId'') (descendants doc_root_session) = None"
    by (simp add: descendants_def doc_root_session_def partner_def)
  have r: "parse_login_response sample_fromstring xml_root_session = Inr (None, None)"
    using p f by (intro parse_not_found [where root = doc_root_session]) simp_all
  show ?thesis
    using p r by (simp add: doc_root_session_def)
qed

text \<open>
  C2. The result of \<open>parse_login_response\<close> is all or nothing: both components present,
  or \<^verbatim>\<open>(None, None)\<close>. The code tests that both elements exist, but not that they have a
  text: with an empty \<^verbatim>\<open>serverUrl\<close> element it returns a session id and no URL.
\<close>

theorem parse_login_response_partial_result:
  "sample_fromstring xml_empty_url = Inr doc_empty_url \<and>
   parse_login_response sample_fromstring xml_empty_url = Inr (Some ''S'', None)"
proof -
  have p: "sample_fromstring xml_empty_url = Inr doc_empty_url"
    by (rule sample_values)
  have s: "List.find (\<lambda>e. tag e = ''{urn:partner.soap.sforce.com}sessionId'') (descendants doc_empty_url)
      = Some (Element (partner ''sessionId'') [] (Some ''S'') None [])"
    by (simp add: descendants_def doc_empty_url_def partner_def)
  have u: "List.find (\<lambda>e. tag e = ''{urn:partner.soap.sforce.com}serverUrl'') (descendants doc_empty_url)
      = Some (Element (partner ''serverUrl'') [] None None [])"
    by (simp add: descendants_def doc_empty_url_def partner_def)
  show ?thesis
    using p parse_found [of sample_fromstring xml_empty_url doc_empty_url, OF p s u] by simp
qed

text \<open>
  C3. When \<^verbatim>\<open>ET.fromstring\<close> rejects the text with \<^verbatim>\<open>ParseError\<close> (an unclosed tag, for
  one), \<open>parse_login_response\<close> returns \<^verbatim>\<open>(None, None)\<close>: the result is a value, no
  exception reaches the caller.
\<close>

theorem parse_login_response_malformed:
  assumes "fromstring response_xml = Inl ParseError"
  shows "parse_login_response fromstring response_xml = Inr (None, None)"
  using assms
  by (simp add: parse_login_response_def parse_login_body_def try_except_def
      isinstance_ParseError_def print_and_fail_def str_raises_def)

theorem parse_login_response_malformed_witness:
  "sample_fromstring xml_unclosed = Inl ParseError \<and>
   parse_login_response sample_fromstring xml_unclosed = Inr (None, None)"
proof -
  have h: "sample_fromstring xml_unclosed = Inl ParseError"
    by (simp add: sample_fromstring_def xml_unclosed_def xml_login_ok_def xml_root_session_def
        xml_empty_url_def xml_empty_session_def xml_no_session_def xml_lone_surrogate_def)
  show ?thesis
    using h parse_login_response_malformed [of sample_fromstring xml_unclosed] by simp
qed

text \<open>
  Not every text that is not XML ends in \<^verbatim>\<open>ParseError\<close>. On a text with a surrogate
  that has no pair the parser raises \<^verbatim>\<open>UnicodeEncodeError\<close>, which the handler of line 97
  does not take: the exception reaches the caller.
\<close>

theorem parse_login_response_surrogate_counterexample:
  "sample_fromstring xml_lone_surrogate = Inl UnicodeEncodeError \<and>
   parse_login_response sample_fromstring xml_lone_surrogate = Inl UnicodeEncodeError \<and>
   parse_login_response sample_fromstring xml_lone_surrogate \<noteq> Inr (None, None)"
proof -
  have p: "sample_fromstring xml_lone_surrogate = Inl UnicodeEncodeError"
    by (rule sample_values)
  have "parse_login_response sample_fromstring xml_lone_surrogate = Inl UnicodeEncodeError"
    by (simp add: parse_login_response_def parse_login_body_def try_except_def
        isinstance_ParseError_def p)
  with p show ?thesis by simp
qed




text \<open>
  C5. When the POST answers with a status other than 200, or raises an exception of the
  transport (a network failure, a timeout after the 30 seconds the request allows: an
  instance of \<^verbatim>\<open>Exception\<close> with a message), \<open>get_salesforce_session_id\<close> returns
  \<^verbatim>\<open>(None, None)\<close> as a value, and exactly one request has been sent: there is no second
  attempt.
\<close>

theorem get_salesforce_session_id_transport_failure:
  assumes "(post sent (login_request username password security_token is_sandbox) = Inl e \<and>
      isinstance_Exception e \<and> str_raises e = None) \<or>
     (post sent (login_request username password security_token is_sandbox) = Inr response \<and>
      status_code response \<noteq> 200)"
  shows "get_salesforce_session_id post fromstring username password security_token is_sandbox sent =
     (Inr (None, None), sent @ [login_request username password security_token is_sandbox]) \<and>
     timeout (login_request username password security_token is_sandbox) = Some 30"
proof -
  have t: "timeout (login_request username password security_token is_sandbox) = Some 30"
    by (simp add: login_request_def Let_def)
  from assms show ?thesis
  proof
    assume "post sent (login_request username password security_token is_sandbox) = Inl e \<and>
      isinstance_Exception e \<and> str_raises e = None"
    then show ?thesis
      using t by (simp add: get_salesforce_session_id_def try_except_def print_and_fail_def Let_def)
  next
    assume "post sent (login_request username password security_token is_sandbox) = Inr response \<and>
      status_code response \<noteq> 200"
    then show ?thesis
      using t by (simp add: get_salesforce_session_id_def try_except_def Let_def)
  qed
qed

theorem get_salesforce_session_id_transport_failure_witness:
  "get_salesforce_session_id post_status_500 sample_fromstring ''USER'' ''PASS'' ''TOKEN'' True [] =
     (Inr (None, None), [login_request ''USER'' ''PASS'' ''TOKEN'' True]) \<and>
   get_salesforce_session_id post_timeout sample_fromstring ''USER'' ''PASS'' ''TOKEN'' False [] =
     (Inr (None, None), [login_request ''USER'' ''PASS'' ''TOKEN'' False])"
proof -
  have a: "post_status_500 [] (login_request ''USER'' ''PASS'' ''TOKEN'' True) =
      Inr \<lparr>status_code = 500, resp_text = ''Internal Server Error''\<rparr> \<and>
      status_code \<lparr>status_code = 500, resp_text = ''Internal Server Error''\<rparr> \<noteq> 200"
    by (simp add: post_status_500_def)
  have b: "post_timeout [] (login_request ''USER'' ''PASS'' ''TOKEN'' False) = Inl Timeout \<and>
      isinstance_Exception Timeout \<and> str_raises Timeout = None"
    by (simp add: post_timeout_def isinstance_Exception_def str_raises_def)
  show ?thesis
    using get_salesforce_session_id_transport_failure
        [of post_status_500 "[]" "''USER''" "''PASS''" "''TOKEN''" True _
            "\<lparr>status_code = 500, resp_text = ''Internal Server Error''\<rparr>" sample_fromstring]
      get_salesforce_session_id_transport_failure
        [of post_timeout "[]" "''USER''" "''PASS''" "''TOKEN''" False Timeout _ sample_fromstring]
      a b
    by simp
qed

text \<open>
  C6. The request goes to the sandbox endpoint when \<open>is_sandbox\<close> is true and to the
  production endpoint otherwise, whatever the credentials.
\<close>

theorem get_salesforce_session_id_endpoint:
  "map url (snd (get_salesforce_session_id post fromstring username password security_token is_sandbox sent)) =
     map url sent @
       [if is_sandbox then ''https://mysandbox.my.salesforce.com/services/Soap/u/60.0''
        else ''https://login.salesforce.com/services/Soap/u/60.0'']"
  by (simp add: get_salesforce_session_id_def login_request_def Let_def)

text \<open>
  C7. When \<^verbatim>\<open>/services/\<close> occurs in the server URL, the REST base URL is the part of the
  server URL before its first occurrence, followed by \<^verbatim>\<open>/services/data/v60.0\<close>; the probe
  sends its GET to that base followed by \<^verbatim>\<open>/\<close>.
\<close>

theorem rest_base_url_prefix:
  assumes "server_url = p @ ''/services/'' @ r"
    and "\<forall>i<length p. \<not> prefix ''/services/'' (drop i server_url)"
  shows "rest_base_url server_url = Inr (p @ ''/services/data/v60.0'') \<and>
     (truthy session_id \<longrightarrow>
        map url (test_rest_api_with_session get_http session_id (Some server_url) sent) =
          map url sent @ [p @ ''/services/data/v60.0'' @ ''/''])"
proof -
  have "str_split_from ''/services/'' [] (p @ ''/services/'' @ r) =
      ([] @ p) # str_split_from ''/services/'' [] r"
    using assms by (intro str_split_from_first) simp_all
  then have b: "rest_base_url server_url = Inr (p @ ''/services/data/v60.0'')"
    by (simp add: rest_base_url_def str_split_def subscript0_def assms(1))
  have "truthy (Some server_url)"
    by (simp add: truthy_def assms(1))
  then show ?thesis
    using b by (simp add: test_rest_api_with_session_def)
qed

theorem rest_base_url_prefix_witness:
  "rest_base_url ''https://acme.my.salesforce.com/services/Soap/u/60.0/00Dxx''
     = Inr ''https://acme.my.salesforce.com/services/data/v60.0'' \<and>
   map url (test_rest_api_with_session post_timeout (Some ''ABC123'')
       (Some ''https://acme.my.salesforce.com/services/Soap/u/60.0/00Dxx'') [])
     = [''https://acme.my.salesforce.com/services/data/v60.0/'']"
proof -
  have a: "''https://acme.my.salesforce.com/services/Soap/u/60.0/00Dxx''
      = ''https://acme.my.salesforce.com'' @ ''/services/'' @ ''Soap/u/60.0/00Dxx''"
    by simp
  have b: "\<forall>i<length ''https://acme.my.salesforce.com''.
      \<not> prefix ''/services/'' (drop i ''https://acme.my.salesforce.com/services/Soap/u/60.0/00Dxx'')"
    by (simp add: All_less_Suc_split)
  have c: "truthy (Some ''ABC123'')"
    by (simp add: truthy_def)
  show ?thesis
    using rest_base_url_prefix [OF a b, of "Some ''ABC123''" post_timeout "[]"] c by simp
qed

text \<open>
  C8. The body of the request is the fixed envelope with two variable fields: the
  content of the \<^verbatim>\<open>username\<close> element is the user name, the content of the \<^verbatim>\<open>password\<close>
  element is the password followed by the security token. Both are copied as they are;
  characters that are special in XML are not escaped.
\<close>

theorem get_salesforce_session_id_envelope:
  \<open>map data (snd (get_salesforce_session_id post fromstring username password security_token is_sandbox sent)) =
     map data sent @
       [Some (''<?xml version="1.0" encoding="utf-8"?>\<newline><soapenv:Envelope xmlns:soapenv="http://schemas.xmlsoap.org/soap/envelope/" xmlns:urn="urn:partner.soap.sforce.com">\<newline>    <soapenv:Header/>\<newline>    <soapenv:Body>\<newline>        <urn:login>\<newline>            <urn:username>''
              @ username @
              ''</urn:username>\<newline>            <urn:password>''
              @ password @ security_token @
              ''</urn:password>\<newline>        </urn:login>\<newline>    </soapenv:Body>\<newline></soapenv:Envelope>'')]\<close>
  by (simp add: get_salesforce_session_id_def login_request_def Let_def soap_body_def)

theorem get_salesforce_session_id_envelope_witness:
  \<open>map data (snd (get_salesforce_session_id post_timeout sample_fromstring ''a&b'' ''<p>'' ''"t"'' False [])) =
     [Some (''<?xml version="1.0" encoding="utf-8"?>\<newline><soapenv:Envelope xmlns:soapenv="http://schemas.xmlsoap.org/soap/envelope/" xmlns:urn="urn:partner.soap.sforce.com">\<newline>    <soapenv:Header/>\<newline>    <soapenv:Body>\<newline>        <urn:login>\<newline>            <urn:username>a&b</urn:username>\<newline>            <urn:password><p>"t"</urn:password>\<newline>        </urn:login>\<newline>    </soapenv:Body>\<newline></soapenv:Envelope>'')]\<close>
  using get_salesforce_session_id_envelope
    [of post_timeout sample_fromstring \<open>''a&b''\<close> \<open>''<p>''\<close> \<open>''"t"''\<close> False "[]"]
  by simp

text \<open>
  C9. When every exception that the request raises, and every exception that the parser
  raises on the body of a 200 answer, is an instance of \<^verbatim>\<open>Exception\<close> whose message can be
  formatted, \<open>get_salesforce_session_id\<close> returns a pair and no exception reaches the
  caller, whatever else the transport and the parser do: the exceptions of the request and
  of the parsing, the \<^verbatim>\<open>TypeError\<close> of an empty \<^verbatim>\<open>sessionId\<close> included, end in the
  handler of line 56.
\<close>

theorem get_salesforce_session_id_never_raises:
  assumes "\<forall>e. post sent (login_request username password security_token is_sandbox) = Inl e
      \<longrightarrow> isinstance_Exception e \<and> str_raises e = None"
    and "\<forall>response e.
      post sent (login_request username password security_token is_sandbox) = Inr response \<and>
      status_code response = 200 \<and> fromstring (resp_text response) = Inl e
      \<longrightarrow> isinstance_Exception e \<and> str_raises e = None"
  shows "\<exists>r. fst (get_salesforce_session_id post fromstring username password security_token is_sandbox sent) = Inr r"
proof (cases "post sent (login_request username password security_token is_sandbox)")
  case (Inl e)
  then have "isinstance_Exception e \<and> str_raises e = None"
    using assms(1) by blast
  with Inl show ?thesis
    by (simp add: get_salesforce_session_id_def try_except_def print_and_fail_def Let_def)
next
  case (Inr response)
  show ?thesis
  proof (cases "status_code response = 200")
    case False
    with Inr show ?thesis
      by (simp add: get_salesforce_session_id_def try_except_def Let_def)
  next
    case True
    show ?thesis
    proof (cases "parse_login_response fromstring (resp_text response)")
      case ok: (Inr r)
      with Inr True show ?thesis
        by (simp add: get_salesforce_session_id_def try_except_def Let_def)
    next
      case bad: (Inl e)
      have "isinstance_Exception e \<and> str_raises e = None"
      proof (cases "fromstring (resp_text response)")
        case parser: (Inl e')
        then have e': "isinstance_Exception e' \<and> str_raises e' = None"
          using assms(2) Inr True by blast
        have "e' \<noteq> ParseError \<and> e = e'"
          using bad parser e'
          by (auto simp: parse_login_response_def parse_login_body_def try_except_def
              isinstance_ParseError_def print_and_fail_def split: if_splits)
        with e' show ?thesis by simp
      next
        case parser: (Inr root)
        then have "e = TypeError"
          using bad
          by (auto simp: parse_login_response_def parse_login_body_def try_except_def
              isinstance_ParseError_def find_ns slice_to_def Let_def
              split: if_splits option.splits)
        then show ?thesis
          by (simp add: isinstance_Exception_def str_raises_def)
      qed
      with Inr True bad show ?thesis
        by (simp add: get_salesforce_session_id_def try_except_def print_and_fail_def Let_def)
    qed
  qed
qed

theorem get_salesforce_session_id_never_raises_witness:
  "parse_login_response sample_fromstring xml_empty_session = Inl TypeError \<and>
   (\<exists>r. fst (get_salesforce_session_id post_empty_session sample_fromstring
              ''USER'' ''PASS'' ''TOKEN'' True []) = Inr r) \<and>
   (\<exists>r. fst (get_salesforce_session_id post_timeout sample_fromstring
              ''USER'' ''PASS'' ''TOKEN'' True []) = Inr r)"
proof -
  have p: "sample_fromstring xml_empty_session = Inr doc_empty_session"
    by (rule sample_values)
  have s: "List.find (\<lambda>e. tag e = ''{urn:partner.soap.sforce.com}sessionId'') (descendants doc_empty_session)
      = Some (Element (partner ''sessionId'') [] None None [])"
    by (simp add: descendants_def doc_empty_session_def partner_def)
  have u: "List.find (\<lambda>e. tag e = ''{urn:partner.soap.sforce.com}serverUrl'') (descendants doc_empty_session)
      = Some (Element (partner ''serverUrl'') [] (Some ''U'') None [])"
    by (simp add: descendants_def doc_empty_session_def partner_def)
  have t: "parse_login_response sample_fromstring xml_empty_session = Inl TypeError"
    using parse_found [of sample_fromstring xml_empty_session doc_empty_session, OF p s u] by simp
  have a1: "\<forall>e. post_empty_session [] (login_request ''USER'' ''PASS'' ''TOKEN'' True) = Inl e
      \<longrightarrow> isinstance_Exception e \<and> str_raises e = None"
    by (simp add: post_empty_session_def)
  have a2: "\<forall>response e.
      post_empty_session [] (login_request ''USER'' ''PASS'' ''TOKEN'' True) = Inr response \<and>
      status_code response = 200 \<and> sample_fromstring (resp_text response) = Inl e
      \<longrightarrow> isinstance_Exception e \<and> str_raises e = None"
    using p by (auto simp: post_empty_session_def)
  have b1: "\<forall>e. post_timeout [] (login_request ''USER'' ''PASS'' ''TOKEN'' True) = Inl e
      \<longrightarrow> isinstance_Exception e \<and> str_raises e = None"
    by (simp add: post_timeout_def isinstance_Exception_def str_raises_def)
  have b2: "\<forall>response e.
      post_timeout [] (login_request ''USER'' ''PASS'' ''TOKEN'' True) = Inr response \<and>
      status_code response = 200 \<and> sample_fromstring (resp_text response) = Inl e
      \<longrightarrow> isinstance_Exception e \<and> str_raises e = None"
    by (simp add: post_timeout_def)
  show ?thesis
    using t
      get_salesforce_session_id_never_raises
        [of post_empty_session "[]" "''USER''" "''PASS''" "''TOKEN''" True sample_fromstring,
         OF a1 a2]
      get_salesforce_session_id_never_raises
        [of post_timeout "[]" "''USER''" "''PASS''" "''TOKEN''" True sample_fromstring,
         OF b1 b2]
    by simp
qed

text \<open>
  Without that condition an exception can leave the function. \<^verbatim>\<open>except Exception\<close> does
  not take a \<open>KeyboardInterrupt\<close> raised during the request; and when the caught exception
  cannot be formatted, the print of line 57, which stands in the handler and outside the
  \<^verbatim>\<open>try\<close>, raises in its turn.
\<close>

theorem get_salesforce_session_id_raises_counterexample:
  "fst (get_salesforce_session_id post_interrupted sample_fromstring
          ''USER'' ''PASS'' ''TOKEN'' True []) = Inl KeyboardInterrupt \<and>
   fst (get_salesforce_session_id post_str_raises sample_fromstring
          ''USER'' ''PASS'' ''TOKEN'' True []) = Inl ValueError"
  by (simp add: get_salesforce_session_id_def try_except_def isinstance_Exception_def
      print_and_fail_def str_raises_def post_interrupted_def post_str_raises_def Let_def)

text \<open>
  C10. Called directly on a well-formed answer whose first \<^verbatim>\<open>sessionId\<close> element is empty
  (its text is \<^verbatim>\<open>None\<close>) and that has a \<^verbatim>\<open>serverUrl\<close> element, \<open>parse_login_response\<close>
  raises \<^verbatim>\<open>TypeError\<close>: the slice of line 89 fails and the handler of line 97 takes
  \<^verbatim>\<open>ParseError\<close> only.
\<close>

theorem parse_login_response_empty_session_id:
  assumes "fromstring response_xml = Inr root"
    and "descendants root = pre @ se # post"
    and "\<forall>e\<in>set pre. tag e \<noteq> partner ''sessionId''"
    and "tag se = partner ''sessionId''" and "elem_text se = None"
    and "ue \<in> set (descendants root)" and "tag ue = partner ''serverUrl''"
  shows "parse_login_response fromstring response_xml = Inl TypeError"
proof -
  have s: "List.find (\<lambda>e. tag e = ''{urn:partner.soap.sforce.com}sessionId'') (descendants root) = Some se"
    using assms(2,3,4) by (intro find_first[where pre=pre and post=post]) (simp_all add: partner_def)
  have "List.find (\<lambda>e. tag e = ''{urn:partner.soap.sforce.com}serverUrl'') (descendants root) \<noteq> None"
    using assms(6,7) by (auto simp: find_None_iff partner_def)
  then obtain ue' where u: "List.find (\<lambda>e. tag e = ''{urn:partner.soap.sforce.com}serverUrl'') (descendants root) = Some ue'"
    by auto
  show ?thesis
    using parse_found[of fromstring response_xml root se ue'] assms(1,5) s u by simp
qed

theorem parse_login_response_empty_session_id_witness:
  "sample_fromstring xml_empty_session = Inr doc_empty_session \<and>
   parse_login_response sample_fromstring xml_empty_session = Inl TypeError"
proof -
  have p: "sample_fromstring xml_empty_session = Inr doc_empty_session"
    by (rule sample_values)
  have d: "descendants doc_empty_session =
      [] @ Element (partner ''sessionId'') [] None None [] #
        [Element (partner ''serverUrl'') [] (Some ''U'') None []]"
    by (simp add: descendants_def doc_empty_session_def)
  show ?thesis
    using p parse_login_response_empty_session_id
      [of sample_fromstring xml_empty_session doc_empty_session "[]"
          "Element (partner ''sessionId'') [] None None []"
          "[Element (partner ''serverUrl'') [] (Some ''U'') None []]"
          "Element (partner ''serverUrl'') [] (Some ''U'') None []", OF p d]
    by (simp add: d)
qed

end
